theory Spec2Isabelle
  imports Main "HOL-Library.Word" "HOL-Library.AList"
begin

unbundle bit_operations_syntax

section \<open>Errors and the operating system's answers\<close>

text \<open>
  A shallow embedding of parts of the Go package \<^verbatim>\<open>desync\<close>: the self seed of the
  assembler (\<^verbatim>\<open>selfseed.go\<close>), the local and the GCS chunk store, the store-location
  parser (\<^verbatim>\<open>store_utils.go\<close>) and the Windows \<^verbatim>\<open>tar\<close>. Go errors are values of
  the type \<open>error\<close>; a function returning \<^verbatim>\<open>error\<close> returns \<open>error option\<close>
  (\<open>None\<close> is \<^verbatim>\<open>nil\<close>), a function returning \<^verbatim>\<open>(T, error)\<close> returns \<open>error + T\<close>,
  and a run-time panic is the error \<open>Panic\<close>.
\<close>

type_synonym byte = "8 word"

text \<open>\<^verbatim>\<open>type ChunkID [32]byte\<close>: the bytes of the digest.\<close>

type_synonym ChunkID = "byte list"

datatype errno = ENOENT | EEXIST | ENOTEMPTY | EACCES | EBUSY | EIO

datatype error =
    ChunkMissing ChunkID
  | ChunkInvalid ChunkID ChunkID
  | Interrupted
  | PathError errno
  | ErrObjectNotExist
  | OtherError string
  | Panic string

text \<open>
  \<^verbatim>\<open>os.IsExist\<close> and \<^verbatim>\<open>os.IsNotExist\<close> look at the errno under a path error; both
  are false of \<^verbatim>\<open>nil\<close>.
\<close>

fun os_IsExist :: "error option \<Rightarrow> bool" where
  "os_IsExist (Some (PathError e)) = (e = EEXIST \<or> e = ENOTEMPTY)"
| "os_IsExist _ = False"

fun os_IsNotExist :: "error option \<Rightarrow> bool" where
  "os_IsNotExist (Some (PathError e)) = (e = ENOENT)"
| "os_IsNotExist _ = False"

section \<open>Strings and paths\<close>

definition HasSuffix :: "string \<Rightarrow> string \<Rightarrow> bool" where
  "HasSuffix s suffix = (length suffix \<le> length s \<and> drop (length s - length suffix) s = suffix)"

definition HasPrefix :: "string \<Rightarrow> string \<Rightarrow> bool" where
  "HasPrefix s prefix = (take (length prefix) s = prefix)"

definition TrimSuffix :: "string \<Rightarrow> string \<Rightarrow> string" where
  "TrimSuffix s suffix = (if HasSuffix s suffix then take (length s - length suffix) s else s)"

definition TrimPrefix :: "string \<Rightarrow> string \<Rightarrow> string" where
  "TrimPrefix s prefix = (if HasPrefix s prefix then drop (length prefix) s else s)"

text \<open>\<^verbatim>\<open>strings.Split(s, sep)\<close> for a separator of one character.\<close>

fun Split :: "string \<Rightarrow> char \<Rightarrow> string list" where
  "Split [] sep = [[]]"
| "Split (c # cs) sep =
     (if c = sep then [] # Split cs sep
      else (case Split cs sep of [] \<Rightarrow> [[c]] | w # ws \<Rightarrow> (c # w) # ws))"

text \<open>
  \<^verbatim>\<open>filepath.Base\<close> with the separator \<open>/\<close>: trailing separators are dropped, and the
  result is the last element of the path.
\<close>

definition strip_slashes :: "string \<Rightarrow> string" where
  "strip_slashes p = rev (dropWhile (\<lambda>c. c = CHR ''/'') (rev p))"

definition filepath_Base :: "string \<Rightarrow> string" where
  "filepath_Base p =
     (if p = [] then ''.''
      else let q = strip_slashes p in
        if q = [] then ''/'' else rev (takeWhile (\<lambda>c. c \<noteq> CHR ''/'') (rev q)))"

text \<open>
  \<^verbatim>\<open>filepath.Join\<close> of two elements: empty elements are ignored and the others are
  joined by the separator. The normalisation of \<^verbatim>\<open>filepath.Clean\<close> is not modelled: the
  paths joined here are a store's base directory and names made of hexadecimal digits.
\<close>

definition filepath_Join :: "string \<Rightarrow> string \<Rightarrow> string" where
  "filepath_Join a b = (if a = [] then b else if b = [] then a else a @ ''/'' @ b)"

section \<open>Chunk IDs as strings\<close>

definition hextable :: string where
  "hextable = ''0123456789abcdef''"

text \<open>
  Modelled from the spec: \<^verbatim>\<open>ChunkID.String\<close> and \<^verbatim>\<open>ChunkIDFromString\<close> are declared
  in a file that is not among the sources. The spec: a ChunkID is a 32-byte digest whose
  stable string form is lowercase hex.
\<close>

definition ChunkID_String :: "ChunkID \<Rightarrow> string" where
  "ChunkID_String c =
     concat (map (\<lambda>b. [hextable ! unat (drop_bit 4 b), hextable ! unat (b AND 15)]) c)"

definition fromHexChar :: "char \<Rightarrow> byte option" where
  "fromHexChar c =
     (let n = (of_char c :: nat) in
      if of_char CHR ''0'' \<le> n \<and> n \<le> of_char CHR ''9'' then Some (of_nat (n - of_char CHR ''0''))
      else if of_char CHR ''a'' \<le> n \<and> n \<le> of_char CHR ''f''
        then Some (of_nat (n - of_char CHR ''a'' + 10))
      else None)"

fun hex_Decode :: "string \<Rightarrow> byte list option" where
  "hex_Decode [] = Some []"
| "hex_Decode [c] = None"
| "hex_Decode (c # d # cs) =
     (case (fromHexChar c, fromHexChar d, hex_Decode cs) of
        (Some hi, Some lo, Some bs) \<Rightarrow> Some ((push_bit 4 hi OR lo) # bs)
      | _ \<Rightarrow> None)"

definition ChunkIDFromString :: "string \<Rightarrow> error + ChunkID" where
  "ChunkIDFromString sID =
     (case hex_Decode sID of
        None \<Rightarrow> Inl (OtherError ''failed to decode chunk id string'')
      | Some b \<Rightarrow>
          if length b \<noteq> 32 then Inl (OtherError ''chunk id string not of right size'')
          else Inr b)"

section \<open>Store options\<close>

text \<open>
  Modelled from the spec: the struct \<^verbatim>\<open>StoreOptions\<close> and the two chunk-file extensions
  are declared in files that are not among the sources. The fields are the ones
  \<^verbatim>\<open>CmdStoreOptions.MergedWith\<close> and the stores read; the spec names the files of a store
  \<^verbatim>\<open><full_id>.cacnk\<close> (compressed) and \<^verbatim>\<open><full_id>.uncacnk\<close> (uncompressed).
\<close>

record StoreOptions =
  N :: int
  ClientCert :: string
  ClientKey :: string
  CACert :: string
  SkipVerify :: bool
  TrustInsecure :: bool
  Timeout :: int
  ErrorRetry :: int
  Uncompressed :: bool

definition CompressedChunkExt :: string where
  "CompressedChunkExt = ''.cacnk''"

definition UncompressedChunkExt :: string where
  "UncompressedChunkExt = ''.uncacnk''"

section \<open>The GCS store\<close>

text \<open>
  \<^verbatim>\<open>GCSStoreBase\<close> without its client and bucket handles: the bucket is the record
  \<open>bucket\<close> below, passed to every operation. An object is there when its name is in
  \<open>objects\<close>; \<open>fault\<close> gives, for a name, the error the backend answers a request on it
  with (a network failure, a refused credential), if any.
\<close>

record GCSStore =
  Location :: string
  prefix :: string
  gcs_opt :: StoreOptions

record bucket =
  objects :: "string set"
  fault :: "string \<Rightarrow> error option"

definition bucket_Attrs :: "bucket \<Rightarrow> string \<Rightarrow> error option" where
  "bucket_Attrs b name =
     (case fault b name of
        Some e \<Rightarrow> Some e
      | None \<Rightarrow> if name \<in> objects b then None else Some ErrObjectNotExist)"

definition bucket_Delete :: "bucket \<Rightarrow> string \<Rightarrow> error option \<times> bucket" where
  "bucket_Delete b name =
     (case fault b name of
        Some e \<Rightarrow> (Some e, b)
      | None \<Rightarrow>
          if name \<in> objects b then (None, b\<lparr>objects := objects b - {name}\<rparr>)
          else (Some ErrObjectNotExist, b))"

definition GCS_nameFromID :: "GCSStore \<Rightarrow> ChunkID \<Rightarrow> string" where
  "GCS_nameFromID s cid =
     (let sID = ChunkID_String cid;
          name = prefix s @ take 4 sID @ ''/'' @ sID
      in if Uncompressed (gcs_opt s) then name @ UncompressedChunkExt
         else name @ CompressedChunkExt)"

definition GCS_HasChunk :: "GCSStore \<Rightarrow> bucket \<Rightarrow> ChunkID \<Rightarrow> bool \<times> error option" where
  "GCS_HasChunk s b cid =
     (let name = GCS_nameFromID s cid;
          err = bucket_Attrs b name
      in (err = None, None))"

definition GCS_RemoveChunk :: "GCSStore \<Rightarrow> bucket \<Rightarrow> ChunkID \<Rightarrow> error option \<times> bucket" where
  "GCS_RemoveChunk s b cid = (let name = GCS_nameFromID s cid in bucket_Delete b name)"

section \<open>The local store and the store values\<close>

record LocalStore =
  Base :: string
  UpdateTimes :: bool
  opt :: StoreOptions

text \<open>
  \<^verbatim>\<open>url.URL\<close> as far as the parser of store locations reads it: \<open>url_String\<close> is
  \<^verbatim>\<open>u.String()\<close> and \<open>lookup\<close> is \<^verbatim>\<open>u.Query().Get("lookup")\<close>.
\<close>

record url =
  Scheme :: string
  Host :: string
  Path :: string
  url_String :: string
  lookup :: string

datatype BucketLookup = BucketLookupAuto | BucketLookupDNS | BucketLookupPath

text \<open>
  A value of the interface type \<^verbatim>\<open>Store\<close>. The local and the GCS store are held by
  value (\<^verbatim>\<open>var _ WriteStore = LocalStore{}\<close>, and every method has a value receiver).
  The remote stores over SSH, SFTP, HTTP and S3 are not among the sources and are kept
  as the arguments of their constructors. Modelled from the spec: \<^verbatim>\<open>NewStoreRouter\<close>,
  \<^verbatim>\<open>NewFailoverGroup\<close> and \<^verbatim>\<open>NewCache\<close> are not among the sources; a router and a
  failover group are ordered lists of stores, and a cache wraps a primary store and a
  cache store.
\<close>

datatype Store =
    ALocalStore LocalStore
  | AGCSStore GCSStore
  | RemoteSSHStore url StoreOptions
  | SFTPStore url StoreOptions
  | RemoteHTTPStore url StoreOptions
  | S3Store url StoreOptions BucketLookup
  | StoreRouter "Store list"
  | FailoverGroup "Store list"
  | Cache Store Store

definition NewStoreRouter :: "Store list \<Rightarrow> Store" where
  "NewStoreRouter stores = StoreRouter stores"

definition NewFailoverGroup :: "Store list \<Rightarrow> Store" where
  "NewFailoverGroup stores = FailoverGroup stores"

definition NewCache :: "Store \<Rightarrow> Store \<Rightarrow> Store" where
  "NewCache s l = Cache s l"

section \<open>Parsing store locations\<close>

record CmdStoreOptions =
  cmd_N :: int
  cmd_ClientCert :: string
  cmd_ClientKey :: string
  cmd_CaCert :: string
  cmd_SkipVerify :: bool
  cmd_TrustInsecure :: bool

definition MergedWith :: "CmdStoreOptions \<Rightarrow> StoreOptions \<Rightarrow> StoreOptions" where
  "MergedWith c opt0 =
     (let opt1 = opt0\<lparr>N := cmd_N c\<rparr>;
          opt2 = (if cmd_ClientCert c \<noteq> [] then opt1\<lparr>ClientCert := cmd_ClientCert c\<rparr> else opt1);
          opt3 = (if cmd_ClientKey c \<noteq> [] then opt2\<lparr>ClientKey := cmd_ClientKey c\<rparr> else opt2);
          opt4 = (if cmd_CaCert c \<noteq> [] then opt3\<lparr>CACert := cmd_CaCert c\<rparr> else opt3);
          opt5 = (if cmd_SkipVerify c then opt4\<lparr>SkipVerify := True\<rparr> else opt4);
          opt6 = (if cmd_TrustInsecure c then opt5\<lparr>TrustInsecure := True\<rparr> else opt5)
      in opt6)"

text \<open>
  What \<^verbatim>\<open>StoreFromLocation\<close> asks of its surroundings: \<^verbatim>\<open>url.Parse\<close>, the global
  configuration \<^verbatim>\<open>Cfg\<close>, \<^verbatim>\<open>os.Stat\<close> on a directory (an error, or whether it is a
  directory), \<^verbatim>\<open>storage.NewClient\<close>, the constructors of the remote stores (the error
  they return, if any), and which of the remote stores implement \<^verbatim>\<open>WriteStore\<close>.
\<close>

record sysenv =
  url_Parse :: "string \<Rightarrow> error + url"
  Cfg_GetStoreOptionsFor :: "string \<Rightarrow> StoreOptions"
  Cfg_HTTPTimeout :: int
  Cfg_HTTPErrorRetry :: int
  stat_IsDir :: "string \<Rightarrow> error + bool"
  storage_NewClient :: "error option"
  remote_init :: "Store \<Rightarrow> error option"
  remote_WriteStore :: "Store \<Rightarrow> bool"

definition NewLocalStore :: "sysenv \<Rightarrow> string \<Rightarrow> StoreOptions \<Rightarrow> error + LocalStore" where
  "NewLocalStore E dir opt0 =
     (case stat_IsDir E dir of
        Inl err \<Rightarrow> Inl err
      | Inr isdir \<Rightarrow>
          if \<not> isdir then Inl (OtherError (dir @ '' is not a directory''))
          else Inr \<lparr>Base = dir, UpdateTimes = False, opt = opt0\<rparr>)"

definition NewGCSStore :: "sysenv \<Rightarrow> url \<Rightarrow> StoreOptions \<Rightarrow> error + GCSStore" where
  "NewGCSStore E u opt0 =
     (if Scheme u \<noteq> ''gs'' then Inl (OtherError (''invalid scheme '' @ Scheme u))
      else if Path u = [] then Inl (Panic ''slice bounds out of range'')
      else let p = drop 1 (Path u);
               p' = (if p \<noteq> [] then p @ ''/'' else p)
           in case storage_NewClient E of
                Some err \<Rightarrow> Inl err
              | None \<Rightarrow> Inr \<lparr>Location = url_String u, prefix = p', gcs_opt = opt0\<rparr>)"

definition new_remote :: "sysenv \<Rightarrow> Store \<Rightarrow> error + Store" where
  "new_remote E s = (case remote_init E s of Some err \<Rightarrow> Inl err | None \<Rightarrow> Inr s)"

definition StoreFromLocation :: "sysenv \<Rightarrow> string \<Rightarrow> CmdStoreOptions \<Rightarrow> error + Store" where
  "StoreFromLocation E location cmdOpt =
     (case url_Parse E location of
        Inl err \<Rightarrow> Inl (OtherError (''Unable to parse store location '' @ location))
      | Inr loc \<Rightarrow>
          let opt0 = MergedWith cmdOpt (Cfg_GetStoreOptionsFor E location) in
          if Scheme loc = ''ssh'' then new_remote E (RemoteSSHStore loc opt0)
          else if Scheme loc = ''sftp'' then new_remote E (SFTPStore loc opt0)
          else if Scheme loc = ''http'' \<or> Scheme loc = ''https'' then
            (let opt1 = (if Timeout opt0 = 0 \<and> Cfg_HTTPTimeout E > 0
                         then opt0\<lparr>Timeout := Cfg_HTTPTimeout E\<rparr> else opt0);
                 opt2 = (if ErrorRetry opt1 = 0 \<and> Cfg_HTTPErrorRetry E > 0
                         then opt1\<lparr>ErrorRetry := Cfg_HTTPErrorRetry E\<rparr> else opt1)
             in new_remote E (RemoteHTTPStore loc opt2))
          else if Scheme loc = ''s3+http'' \<or> Scheme loc = ''s3+https'' then
            (if lookup loc = ''dns'' then new_remote E (S3Store loc opt0 BucketLookupDNS)
             else if lookup loc = ''path'' then new_remote E (S3Store loc opt0 BucketLookupPath)
             else if lookup loc = [] \<or> lookup loc = ''auto''
               then new_remote E (S3Store loc opt0 BucketLookupAuto)
             else Inl (OtherError ''unknown S3 bucket lookup type''))
          else if Scheme loc = ''gs'' then
            (case NewGCSStore E loc opt0 of Inl err \<Rightarrow> Inl err | Inr s \<Rightarrow> Inr (AGCSStore s))
          else
            (case NewLocalStore E location opt0 of
               Inl err \<Rightarrow> Inl err
             | Inr s \<Rightarrow> Inr (ALocalStore s)))"

text \<open>The loop of \<^verbatim>\<open>storeGroup\<close> over the members, with the stores collected so far.\<close>

fun storeGroup_loop ::
  "sysenv \<Rightarrow> CmdStoreOptions \<Rightarrow> string list \<Rightarrow> Store list \<Rightarrow> error + Store list" where
  "storeGroup_loop E cmdOpt [] stores = Inr stores"
| "storeGroup_loop E cmdOpt (m # members) stores =
     (case StoreFromLocation E m cmdOpt of
        Inl err \<Rightarrow> Inl err
      | Inr s \<Rightarrow> storeGroup_loop E cmdOpt members (stores @ [s]))"

definition storeGroup :: "sysenv \<Rightarrow> string \<Rightarrow> CmdStoreOptions \<Rightarrow> error + Store" where
  "storeGroup E location cmdOpt =
     (if CHR ''|'' \<notin> set location then StoreFromLocation E location cmdOpt
      else case storeGroup_loop E cmdOpt (Split location CHR ''|'') [] of
             Inl err \<Rightarrow> Inl err
           | Inr stores \<Rightarrow> Inr (NewFailoverGroup stores))"

fun MultiStoreWithRouter_loop ::
  "sysenv \<Rightarrow> CmdStoreOptions \<Rightarrow> string list \<Rightarrow> Store list \<Rightarrow> error + Store list" where
  "MultiStoreWithRouter_loop E cmdOpt [] stores = Inr stores"
| "MultiStoreWithRouter_loop E cmdOpt (location # storeLocations) stores =
     (case storeGroup E location cmdOpt of
        Inl err \<Rightarrow> Inl err
      | Inr s \<Rightarrow> MultiStoreWithRouter_loop E cmdOpt storeLocations (stores @ [s]))"

definition MultiStoreWithRouter ::
  "sysenv \<Rightarrow> CmdStoreOptions \<Rightarrow> string list \<Rightarrow> error + Store" where
  "MultiStoreWithRouter E cmdOpt storeLocations =
     (case MultiStoreWithRouter_loop E cmdOpt storeLocations [] of
        Inl err \<Rightarrow> Inl err
      | Inr stores \<Rightarrow> Inr (NewStoreRouter stores))"

text \<open>The type assertion \<^verbatim>\<open>s.(WriteStore)\<close>.\<close>

fun is_WriteStore :: "sysenv \<Rightarrow> Store \<Rightarrow> bool" where
  "is_WriteStore E (ALocalStore s) = True"
| "is_WriteStore E (AGCSStore s) = True"
| "is_WriteStore E s = remote_WriteStore E s"

definition WritableStore :: "sysenv \<Rightarrow> string \<Rightarrow> CmdStoreOptions \<Rightarrow> error + Store" where
  "WritableStore E location cmdOpt =
     (case StoreFromLocation E location cmdOpt of
        Inl err \<Rightarrow> Inl err
      | Inr s \<Rightarrow>
          if \<not> is_WriteStore E s
          then Inl (OtherError (''store '' @ location @ '' does not support writing''))
          else Inr s)"

text \<open>
  The type assertion \<^verbatim>\<open>ls, ok := cache.(LocalStore)\<close>: \<^verbatim>\<open>cache\<close> holds a
  \<^verbatim>\<open>LocalStore\<close> by value, so \<^verbatim>\<open>ls\<close> is a new variable holding a copy of it (the zero
  value when the assertion fails).
\<close>

definition zero_StoreOptions :: StoreOptions where
  "zero_StoreOptions =
     \<lparr>N = 0, ClientCert = [], ClientKey = [], CACert = [], SkipVerify = False,
      TrustInsecure = False, Timeout = 0, ErrorRetry = 0, Uncompressed = False\<rparr>"

definition assert_LocalStore :: "Store \<Rightarrow> LocalStore \<times> bool" where
  "assert_LocalStore c =
     (case c of
        ALocalStore l \<Rightarrow> (l, True)
      | _ \<Rightarrow> (\<lparr>Base = [], UpdateTimes = False, opt = zero_StoreOptions\<rparr>, False))"

text \<open>
  \<^verbatim>\<open>MultiStoreWithCache\<close> returns a pair \<^verbatim>\<open>(Store, error)\<close> whose two parts can both be
  set. The assignment \<^verbatim>\<open>ls.UpdateTimes = true\<close> changes the variable \<^verbatim>\<open>ls\<close>; the call
  \<^verbatim>\<open>NewCache(store, cache)\<close> that follows reads \<^verbatim>\<open>cache\<close>.
\<close>

definition MultiStoreWithCache ::
  "sysenv \<Rightarrow> CmdStoreOptions \<Rightarrow> string \<Rightarrow> string list \<Rightarrow> Store option \<times> error option" where
  "MultiStoreWithCache E cmdOpt cacheLocation storeLocations =
     (case MultiStoreWithRouter E cmdOpt storeLocations of
        Inl err \<Rightarrow> (None, Some err)
      | Inr store \<Rightarrow>
          if cacheLocation \<noteq> [] then
            (case WritableStore E cacheLocation cmdOpt of
               Inl err \<Rightarrow> (Some store, Some err)
             | Inr cache \<Rightarrow>
                 let (ls, ok) = assert_LocalStore cache;
                     ls = (if ok then ls\<lparr>UpdateTimes := True\<rparr> else ls)
                 in (Some (NewCache store cache), None))
          else (Some store, None))"

section \<open>Example surroundings\<close>

text \<open>
  Surroundings in which every location is a path of an existing directory: no location has
  a URL scheme, the configuration is empty and nothing fails.
\<close>

definition example_env :: sysenv where
  "example_env =
     \<lparr>url_Parse = (\<lambda>l. Inr \<lparr>Scheme = [], Host = [], Path = l, url_String = l, lookup = []\<rparr>),
      Cfg_GetStoreOptionsFor = (\<lambda>l. zero_StoreOptions),
      Cfg_HTTPTimeout = 0,
      Cfg_HTTPErrorRetry = 0,
      stat_IsDir = (\<lambda>d. Inr True),
      storage_NewClient = None,
      remote_init = (\<lambda>s. None),
      remote_WriteStore = (\<lambda>s. False)\<rparr>"

definition example_cmdOpt :: CmdStoreOptions where
  "example_cmdOpt =
     \<lparr>cmd_N = 10, cmd_ClientCert = [], cmd_ClientKey = [], cmd_CaCert = [],
      cmd_SkipVerify = False, cmd_TrustInsecure = False\<rparr>"

definition example_local :: "string \<Rightarrow> LocalStore" where
  "example_local dir = \<lparr>Base = dir, UpdateTimes = False, opt = zero_StoreOptions\<lparr>N := 10\<rparr>\<rparr>"

text \<open>\<^verbatim>\<open>strings.Join\<close> with a separator of one character, the inverse of \<open>Split\<close>.\<close>

fun Join :: "string list \<Rightarrow> char \<Rightarrow> string" where
  "Join [] sep = []"
| "Join [w] sep = w"
| "Join (w # ws) sep = w @ sep # Join ws sep"

section \<open>The self seed\<close>

text \<open>
  Modelled from the spec: the structs \<^verbatim>\<open>IndexChunk\<close>, \<^verbatim>\<open>Index\<close> and \<^verbatim>\<open>IndexSegment\<close>
  are declared in files that are not among the sources. An index chunk is
  \<open>{ID, Start, Size}\<close>; of an index the self seed reads the field \<^verbatim>\<open>Chunks\<close> only; of a
  segment \<^verbatim>\<open>add\<close> reads \<^verbatim>\<open>first\<close> and \<^verbatim>\<open>last\<close>, the positions of its first and of its
  last chunk.
\<close>

record IndexChunk =
  ID :: ChunkID
  Start :: "64 word"
  Size :: "64 word"

record Index =
  Chunks :: "IndexChunk list"

record IndexSegment =
  first :: int
  last' :: int

text \<open>
  The struct \<^verbatim>\<open>selfSeed\<close> without its mutex: every method is modelled as one atomic
  step. Go's \<^verbatim>\<open>int\<close> is an \<open>int\<close> here; the one addition that can overflow,
  \<^verbatim>\<open>segment.last + 1\<close>, wraps around as a 64-bit addition does (\<open>go_int_add\<close>); the
  increments \<^verbatim>\<open>i++\<close>, \<^verbatim>\<open>dp++\<close> and \<^verbatim>\<open>sp++\<close> happen below a bound that was just
  checked. The map \<^verbatim>\<open>cache\<close> is an association list with one pair per key; the map
  \<^verbatim>\<open>pos\<close> is a partial function.
\<close>

record selfSeed =
  file' :: string
  index :: Index
  pos :: "ChunkID \<rightharpoonup> int list"
  canReflink :: bool
  written :: int
  cache :: "(int \<times> int) list"

definition go_int_add :: "int \<Rightarrow> int \<Rightarrow> int" where
  "go_int_add a b = (a + b + 2 ^ 63) mod 2 ^ 64 - 2 ^ 63"

text \<open>\<^verbatim>\<open>newSelfSeed\<close>; \<open>canClone\<close> is the answer of \<^verbatim>\<open>CanClone(file, file)\<close>.\<close>

definition newSelfSeed :: "bool \<Rightarrow> string \<Rightarrow> Index \<Rightarrow> selfSeed" where
  "newSelfSeed canClone f idx =
     \<lparr>file' = f, index = idx, pos = Map.empty, canReflink = canClone, written = 0, cache = []\<rparr>"

text \<open>
  The inner loop of \<^verbatim>\<open>add\<close>: \<^verbatim>\<open>for i := s.written; i < next; i++\<close>. Reading
  \<^verbatim>\<open>s.index.Chunks[i]\<close> outside the slice panics.
\<close>

function add_chunks ::
  "Index \<Rightarrow> (ChunkID \<rightharpoonup> int list) \<Rightarrow> int \<Rightarrow> int \<Rightarrow> error + (ChunkID \<rightharpoonup> int list)" where
  "add_chunks idx ps i next =
     (if i < next then
        (if i < 0 \<or> int (length (Chunks idx)) \<le> i then Inl (Panic ''index out of range'')
         else let chunk = Chunks idx ! nat i
              in add_chunks idx
                   (ps(ID chunk \<mapsto> (case ps (ID chunk) of None \<Rightarrow> [] | Some l \<Rightarrow> l) @ [i]))
                   (i + 1) next)
      else Inr ps)"
  by pat_completeness auto
termination
  by (relation "measure (\<lambda>(idx, ps, i, next). nat (next - i))") auto

lemma length_delete_less:
  "map_of al k = Some v \<Longrightarrow> length (AList.delete k al) < length al"
proof (induction al)
  case Nil
  then show ?case by simp
next
  case (Cons a al)
  then show ?case
    using length_delete_le [of k al] by (cases a) (auto split: if_splits)
qed

text \<open>The outer loop of \<^verbatim>\<open>add\<close>: \<^verbatim>\<open>for { next, ok := s.cache[s.written]; ... }\<close>.\<close>

function add_loop :: "selfSeed \<Rightarrow> error + selfSeed" where
  "add_loop s =
     (case map_of (cache s) (written s) of
        None \<Rightarrow> Inr s
      | Some next \<Rightarrow>
          (case add_chunks (index s) (pos s) (written s) next of
             Inl e \<Rightarrow> Inl e
           | Inr ps \<Rightarrow>
               add_loop (s\<lparr>pos := ps, cache := AList.delete (written s) (cache s),
                           written := next\<rparr>)))"
  by pat_completeness auto
termination
  by (relation "measure (\<lambda>s. length (cache s))") (auto simp: length_delete_less)

definition add :: "selfSeed \<Rightarrow> IndexSegment \<Rightarrow> error + selfSeed" where
  "add s segment =
     add_loop (s\<lparr>cache := AList.update (first segment) (go_int_add (last' segment) 1) (cache s)\<rparr>)"

text \<open>A sequence of calls of \<^verbatim>\<open>add\<close>, one after the other; a panic ends it.\<close>

fun add_all :: "selfSeed \<Rightarrow> IndexSegment list \<Rightarrow> error + selfSeed" where
  "add_all s [] = Inr s"
| "add_all s (segment # segments) =
     (case add s segment of Inl e \<Rightarrow> Inl e | Inr s' \<Rightarrow> add_all s' segments)"

text \<open>
  A value of type \<^verbatim>\<open>[]IndexChunk\<close> that is \<^verbatim>\<open>nil\<close> or a slice
  \<^verbatim>\<open>s.index.Chunks[lo:hi]\<close> of the seed's index: the slice holds the chunks at the
  positions \<open>lo\<close>, ..., \<open>hi - 1\<close> of the index.
\<close>

datatype IndexChunk_slice = nil_slice | Chunks_slice int int

fun slice_len :: "IndexChunk_slice \<Rightarrow> int" where
  "slice_len nil_slice = 0"
| "slice_len (Chunks_slice lo hi) = hi - lo"

fun slice_positions :: "IndexChunk_slice \<Rightarrow> int list" where
  "slice_positions nil_slice = []"
| "slice_positions (Chunks_slice lo hi) = [lo..hi - 1]"

text \<open>
  The loop of \<^verbatim>\<open>maxMatchFrom\<close>, returning the final \<^verbatim>\<open>dp\<close>. \<^verbatim>\<open>chunks[sp]\<close> and
  \<^verbatim>\<open>s.index.Chunks[dp]\<close> panic outside their slices.
\<close>

function maxMatchFrom_loop ::
  "Index \<Rightarrow> IndexChunk list \<Rightarrow> int \<Rightarrow> int \<Rightarrow> int \<Rightarrow> error + int" where
  "maxMatchFrom_loop idx chunks w sp dp =
     (if dp \<ge> w \<or> sp \<ge> int (length chunks) then Inr dp
      else if sp < 0 \<or> dp < 0 \<or> int (length (Chunks idx)) \<le> dp
        then Inl (Panic ''index out of range'')
      else if ID (chunks ! nat sp) \<noteq> ID (Chunks idx ! nat dp) then Inr dp
      else maxMatchFrom_loop idx chunks w (sp + 1) (dp + 1))"
  by pat_completeness auto
termination
  by (relation "measure (\<lambda>(idx, chunks, w, sp, dp). nat (w - dp))") auto

text \<open>
  \<^verbatim>\<open>maxMatchFrom\<close>. The slice expression \<^verbatim>\<open>s.index.Chunks[p:dp]\<close> panics unless
  \<open>0 \<le> p \<le> dp \<le> cap\<close>; the capacity of \<^verbatim>\<open>Chunks\<close> is taken to be its length.
\<close>

definition maxMatchFrom :: "selfSeed \<Rightarrow> IndexChunk list \<Rightarrow> int \<Rightarrow> error + IndexChunk_slice" where
  "maxMatchFrom s chunks p =
     (if length chunks = 0 then Inr nil_slice
      else case maxMatchFrom_loop (index s) chunks (written s) 0 p of
             Inl e \<Rightarrow> Inl e
           | Inr dp \<Rightarrow>
               if p < 0 \<or> dp < p \<or> int (length (Chunks (index s))) < dp
               then Inl (Panic ''slice bounds out of range'')
               else Inr (Chunks_slice p dp))"

text \<open>
  Modelled from the spec: \<^verbatim>\<open>newFileSeedSegment\<close> is not among the sources; the segment
  returned is kept as the arguments it is made from.
\<close>

record SeedSegment =
  seg_file :: string
  seg_chunks :: IndexChunk_slice
  seg_canReflink :: bool
  seg_needValidation :: bool

definition newFileSeedSegment ::
  "string \<Rightarrow> IndexChunk_slice \<Rightarrow> bool \<Rightarrow> bool \<Rightarrow> SeedSegment" where
  "newFileSeedSegment f chunks reflink needValidation =
     \<lparr>seg_file = f, seg_chunks = chunks, seg_canReflink = reflink,
      seg_needValidation = needValidation\<rparr>"

text \<open>The loop of \<^verbatim>\<open>LongestMatchWith\<close> over the positions of the first chunk.\<close>

fun LongestMatchWith_loop ::
  "selfSeed \<Rightarrow> IndexChunk list \<Rightarrow> int list \<Rightarrow> IndexChunk_slice \<Rightarrow> int
     \<Rightarrow> error + (IndexChunk_slice \<times> int)" where
  "LongestMatchWith_loop s chunks [] match max' = Inr (match, max')"
| "LongestMatchWith_loop s chunks (p # ps) match max' =
     (case maxMatchFrom s chunks p of
        Inl e \<Rightarrow> Inl e
      | Inr m \<Rightarrow>
          if slice_len m > max' then LongestMatchWith_loop s chunks ps m (slice_len m)
          else LongestMatchWith_loop s chunks ps match max')"

text \<open>\<^verbatim>\<open>LongestMatchWith\<close>; the second part of the result is \<open>None\<close> for \<^verbatim>\<open>nil\<close>.\<close>

definition LongestMatchWith ::
  "selfSeed \<Rightarrow> IndexChunk list \<Rightarrow> error + (int \<times> SeedSegment option)" where
  "LongestMatchWith s chunks =
     (if length chunks = 0 \<or> length (Chunks (index s)) = 0 then Inr (0, None)
      else case pos s (ID (chunks ! 0)) of
             None \<Rightarrow> Inr (0, None)
           | Some ps \<Rightarrow>
               (case LongestMatchWith_loop s chunks ps nil_slice 0 of
                  Inl e \<Rightarrow> Inl e
                | Inr (match, max') \<Rightarrow>
                    Inr (max', Some (newFileSeedSegment (file' s) match (canReflink s) False))))"

section \<open>Properties\<close>

subsection \<open>GCSStore.HasChunk\<close>

text \<open>
  C9: \<^verbatim>\<open>GCSStore.HasChunk\<close> never returns an error. Whatever the request for the object's
  attributes answers, the error returned is \<^verbatim>\<open>nil\<close>, and the chunk is reported present
  exactly when the request succeeded; a backend failure on the name and a missing object
  both give \<open>(False, None)\<close>.
\<close>

theorem GCS_HasChunk_never_errors:
  "snd (GCS_HasChunk s b cid) = None \<and>
   fst (GCS_HasChunk s b cid) = (bucket_Attrs b (GCS_nameFromID s cid) = None) \<and>
   GCS_HasChunk s (b\<lparr>fault := (fault b)(GCS_nameFromID s cid \<mapsto> e)\<rparr>) cid = (False, None) \<and>
   GCS_HasChunk s (b\<lparr>objects := objects b - {GCS_nameFromID s cid}, fault := \<lambda>n. None\<rparr>) cid
     = (False, None)"
  by (simp add: GCS_HasChunk_def bucket_Attrs_def Let_def)

subsection \<open>Splitting a location\<close>

lemma Split_no_sep: "sep \<notin> set l \<Longrightarrow> Split l sep = [l]"
  by (induction l) auto

lemma Split_not_Nil: "Split l sep \<noteq> []"
  by (induction l) (auto split: list.splits)

lemma Split_members: "w \<in> set (Split l sep) \<Longrightarrow> sep \<notin> set w"
  by (induction l arbitrary: w) (auto split: list.splits if_splits)

lemma Join_Split: "Join (Split l sep) sep = l"
proof (induction l)
  case Nil
  then show ?case by simp
next
  case (Cons c cs)
  obtain w ws where s: "Split cs sep = w # ws"
    using Split_not_Nil [of cs sep] by (cases "Split cs sep") auto
  show ?case
  proof (cases "c = sep")
    case True
    with Cons s show ?thesis by simp
  next
    case False
    with Cons s show ?thesis by (cases ws) auto
  qed
qed

subsection \<open>Store groups and the router\<close>

lemma storeGroup_loop_ok:
  "\<forall>m\<in>set ms. StoreFromLocation E m c = Inr (init m) \<Longrightarrow>
   storeGroup_loop E c ms acc = Inr (acc @ map init ms)"
  by (induction ms arbitrary: acc) auto

lemma storeGroup_ok:
  assumes "\<forall>m\<in>set (Split l CHR ''|''). StoreFromLocation E m c = Inr (init m)"
  shows "storeGroup E l c =
         Inr (if CHR ''|'' \<in> set l then FailoverGroup (map init (Split l CHR ''|'')) else init l)"
proof (cases "CHR ''|'' \<in> set l")
  case True
  then show ?thesis
    using storeGroup_loop_ok [OF assms, of "[]"]
    by (simp add: storeGroup_def NewFailoverGroup_def)
next
  case False
  then have "Split l CHR ''|'' = [l]" by (simp add: Split_no_sep)
  with assms False show ?thesis by (simp add: storeGroup_def)
qed

lemma MultiStoreWithRouter_loop_ok:
  "\<forall>l\<in>set locs. storeGroup E l c = Inr (g l) \<Longrightarrow>
   MultiStoreWithRouter_loop E c locs acc = Inr (acc @ map g locs)"
  by (induction locs arbitrary: acc) auto

lemma example_StoreFromLocation:
  "StoreFromLocation example_env l example_cmdOpt = Inr (ALocalStore (example_local l))"
  by (simp add: StoreFromLocation_def example_env_def example_cmdOpt_def example_local_def
      NewLocalStore_def MergedWith_def zero_StoreOptions_def Let_def)

text \<open>
  C6: for every list of store locations whose members all initialise (member \<open>m\<close> as the
  store \<open>init m\<close>), \<^verbatim>\<open>MultiStoreWithRouter\<close> returns a \<^verbatim>\<open>StoreRouter\<close> over one store
  per location, in the order of the locations: a location with a \<open>|\<close> gives the
  \<^verbatim>\<open>FailoverGroup\<close> of its members, split on \<open>|\<close> and each initialised on its own, in
  their order; a location without a \<open>|\<close> gives its store directly. (\<open>Split_members\<close> and
  \<open>Join_Split\<close> say that \<open>Split\<close> cuts at every \<open>|\<close> and nowhere else.)
\<close>

theorem MultiStoreWithRouter_groups:
  assumes "\<forall>l\<in>set locs. \<forall>m\<in>set (Split l CHR ''|''). StoreFromLocation E m c = Inr (init m)"
  shows "MultiStoreWithRouter E c locs =
         Inr (StoreRouter (map (\<lambda>l. if CHR ''|'' \<in> set l
                                      then FailoverGroup (map init (Split l CHR ''|''))
                                      else init l) locs))"
proof -
  have "\<forall>l\<in>set locs. storeGroup E l c =
          Inr (if CHR ''|'' \<in> set l then FailoverGroup (map init (Split l CHR ''|'')) else init l)"
    using assms storeGroup_ok by blast
  from MultiStoreWithRouter_loop_ok [OF this, of "[]"]
  show ?thesis by (simp add: MultiStoreWithRouter_def NewStoreRouter_def)
qed

theorem MultiStoreWithRouter_groups_witness:
  "MultiStoreWithRouter example_env example_cmdOpt [''/a|/b'', ''/c''] =
   Inr (StoreRouter [FailoverGroup [ALocalStore (example_local ''/a''),
                                    ALocalStore (example_local ''/b'')],
                     ALocalStore (example_local ''/c'')])"
  using MultiStoreWithRouter_groups [of "[''/a|/b'', ''/c'']" example_env example_cmdOpt
      "\<lambda>m. ALocalStore (example_local m)"]
  by (simp add: example_StoreFromLocation)

subsection \<open>The cache of MultiStoreWithCache\<close>

lemma StoreFromLocation_Local_UpdateTimes:
  "StoreFromLocation E l c = Inr (ALocalStore ls) \<Longrightarrow> \<not> UpdateTimes ls"
  by (auto simp: StoreFromLocation_def NewLocalStore_def new_remote_def Let_def
      split: sum.splits if_splits option.splits)

text \<open>
  C5 says that the local store wrapped as the cache has \<^verbatim>\<open>UpdateTimes\<close> set. The code
  does not do that: whenever \<^verbatim>\<open>MultiStoreWithCache\<close> returns a cache whose cache store is
  a \<^verbatim>\<open>LocalStore\<close>, the flag of that store is false. The assignment
  \<^verbatim>\<open>ls.UpdateTimes = true\<close> is made to the copy the type assertion produced, and
  \<^verbatim>\<open>NewCache\<close> is given \<^verbatim>\<open>cache\<close>, which still holds the store as \<^verbatim>\<open>NewLocalStore\<close>
  made it.
\<close>

theorem MultiStoreWithCache_UpdateTimes_unset:
  "MultiStoreWithCache E c cacheLocation locs = (Some (Cache primary (ALocalStore ls)), err)
   \<Longrightarrow> \<not> UpdateTimes ls"
  by (auto simp: MultiStoreWithCache_def WritableStore_def NewCache_def MultiStoreWithRouter_def
      NewStoreRouter_def
      split: sum.splits if_splits prod.splits dest: StoreFromLocation_Local_UpdateTimes)

theorem MultiStoreWithCache_UpdateTimes_unset_witness:
  "MultiStoreWithCache example_env example_cmdOpt ''/cache'' [''/store''] =
     (Some (Cache (StoreRouter [ALocalStore (example_local ''/store'')])
                  (ALocalStore (example_local ''/cache''))), None) \<and>
   \<not> UpdateTimes (example_local ''/cache'')"
proof -
  have run: "MultiStoreWithCache example_env example_cmdOpt ''/cache'' [''/store''] =
     (Some (Cache (StoreRouter [ALocalStore (example_local ''/store'')])
                  (ALocalStore (example_local ''/cache''))), None)"
    by (simp add: MultiStoreWithCache_def MultiStoreWithRouter_def storeGroup_def
        WritableStore_def NewCache_def NewStoreRouter_def example_StoreFromLocation
        assert_LocalStore_def)
  from MultiStoreWithCache_UpdateTimes_unset [OF run] run show ?thesis by simp
qed

end
